theory Spec2Isabelle
  imports Complex_Main "HOL-Library.Multiset"
begin

section \<open>Validation metrics: floats with an infinite initial value\<close>

text \<open>
  The controller starts from \<^verbatim>\<open>best_validate = float('inf')\<close> and compares
  each validation perplexity with it using \<^verbatim>\<open><\<close>. Perplexities are modelled
  as real numbers extended by the positive infinity; rounding and NaN are outside the model.
\<close>

datatype xreal = Fin real | PInf

fun xless :: "xreal \<Rightarrow> xreal \<Rightarrow> bool" where
  "xless (Fin a) (Fin b) = (a < b)"
| "xless (Fin a) PInf = True"
| "xless PInf b = False"

fun xle :: "xreal \<Rightarrow> xreal \<Rightarrow> bool" where
  "xle a PInf = True"
| "xle (Fin a) (Fin b) = (a \<le> b)"
| "xle PInf (Fin b) = False"

section \<open>Training controller (\<^verbatim>\<open>main\<close>, lines 123-241)\<close>

text \<open>
  What can go wrong in the modelled code: an index out of range, a shape mismatch in
  \<^verbatim>\<open>torch.bmm\<close> (a \<^verbatim>\<open>RuntimeError\<close>), Python's integer \<^verbatim>\<open>%\<close> by zero,
  and a float division whose divisor is zero. The last one raises nothing in the program:
  the quotient is \<^verbatim>\<open>inf\<close> or \<^verbatim>\<open>nan\<close> there, a value the real numbers do not
  have, so the model reports it as \<open>NonFinite\<close> instead of computing on.
\<close>

datatype error = IndexError | RuntimeError | ZeroDivisionError | NonFinite

text \<open>The hyper-parameters of \<^verbatim>\<open>get_args\<close> that the modelled code reads.\<close>

record args =
  max_epoch :: int
  clip_norm :: real
  lr :: real
  patience :: int
  save_interval :: int

text \<open>The dictionary returned by \<^verbatim>\<open>utils.load_checkpoint\<close>.\<close>

record state_dict =
  last_epoch :: int
  best_loss :: xreal

text \<open>
  Modelled from the spec: \<^verbatim>\<open>utils.save_checkpoint\<close> and
  \<^verbatim>\<open>utils.load_checkpoint\<close> of the package \<^verbatim>\<open>seq2seq\<close> are not part of
  the sources. By the spec a checkpoint holds at least the epoch number and the best
  validation metric, and loading gives back the saved state, or nothing when no checkpoint
  exists. The checkpoint file is a value of type \<open>state_dict option\<close>.
\<close>

definition save_checkpoint :: "int \<Rightarrow> xreal \<Rightarrow> state_dict option" where
  "save_checkpoint epoch metric = Some \<lparr>last_epoch = epoch, best_loss = metric\<rparr>"

definition load_checkpoint :: "state_dict option \<Rightarrow> state_dict option" where
  "load_checkpoint file = file"

text \<open>The two local variables of \<^verbatim>\<open>main\<close> that track early stopping.\<close>

record tracker =
  best_validate :: xreal
  bad_epochs :: int

text \<open>
  Lines 124-130: the resume point comes from the checkpoint, the tracker is always
  created afresh.
\<close>

definition main_init :: "state_dict option \<Rightarrow> int \<times> tracker" where
  "main_init sd =
     ((case sd of Some d \<Rightarrow> last_epoch d | None \<Rightarrow> - 1),
      \<lparr>best_validate = PInf, bad_epochs = 0\<rparr>)"

text \<open>Lines 234-238: the update of the tracker by one validation perplexity.\<close>

definition early_stop_update :: "xreal \<Rightarrow> tracker \<Rightarrow> tracker" where
  "early_stop_update valid_perplexity t =
     (if xless valid_perplexity (best_validate t)
      then t\<lparr>best_validate := valid_perplexity, bad_epochs := 0\<rparr>
      else t\<lparr>bad_epochs := bad_epochs t + 1\<rparr>)"

datatype status = EARLY_STOPPED | MAX_EPOCH_REACHED | Raised error

text \<open>
  The epoch loop of \<^verbatim>\<open>main\<close> (lines 132-241) over the epochs still to run. Training and
  validation of an epoch are external to the controller: \<open>validate e\<close> is the perplexity
  the validator returns in epoch \<open>e\<close>. \<^verbatim>\<open>epoch % args.save_interval\<close> raises when
  the interval is zero. The result is the way the loop ended and the tracker at the end
  of each epoch whose body ran to its end, in order.
\<close>

fun epoch_loop :: "args \<Rightarrow> (int \<Rightarrow> xreal) \<Rightarrow> int list \<Rightarrow> tracker \<Rightarrow> status \<times> tracker list" where
  "epoch_loop a validate [] t = (MAX_EPOCH_REACHED, [])"
| "epoch_loop a validate (epoch # rest) t =
     (let valid_perplexity = validate epoch in
      if save_interval a = 0 then (Raised ZeroDivisionError, [])
      else
        let t' = early_stop_update valid_perplexity t in
        if bad_epochs t' \<ge> patience a then (EARLY_STOPPED, [t'])
        else (case epoch_loop a validate rest t' of (st, ts) \<Rightarrow> (st, t' # ts)))"

definition main :: "args \<Rightarrow> state_dict option \<Rightarrow> (int \<Rightarrow> xreal) \<Rightarrow> status \<times> tracker list" where
  "main a file validate =
     (case main_init (load_checkpoint file) of
        (resume, t0) \<Rightarrow> epoch_loop a validate [resume + 1 .. max_epoch a - 1] t0)"


text \<open>
  The validation perplexities of the spec's early-stopping scenario,
  \<^verbatim>\<open>[5.0, 4.0, 4.2, 4.3, 4.4, 4.5]\<close>, as the validator's answer in epochs 0 to 5.
\<close>

definition spec_validate :: "int \<Rightarrow> xreal" where
  "spec_validate e =
     (if e = 0 then Fin 5 else if e = 1 then Fin 4 else if e = 2 then Fin 4.2
      else if e = 3 then Fin 4.3 else if e = 4 then Fin 4.4 else if e = 5 then Fin 4.5
      else PInf)"

section \<open>Tensors and the alignment regulariser (\<^verbatim>\<open>get_diff\<close>, lines 57-82)\<close>

text \<open>
  A tensor of shape \<open>[B, n, m]\<close> is a list of \<open>B\<close> matrices, each a list of \<open>n\<close> rows
  of length \<open>m\<close>; floats are real numbers. The nested lists of a tensor are rectangular.
\<close>

type_synonym matrix = "real list list"
type_synonym tensor3 = "real list list list"

definition dot :: "real list \<Rightarrow> real list \<Rightarrow> real" where
  "dot u v = sum_list (map2 (*) u v)"

definition matmul :: "matrix \<Rightarrow> matrix \<Rightarrow> matrix" where
  "matmul A Bm = map (\<lambda>r. map (dot r) (transpose Bm)) A"

text \<open>
  \<^verbatim>\<open>torch.bmm\<close>: the batch sizes agree and the rows of every left matrix are as long
  as the right matrix has rows, or the call raises.
\<close>

definition bmm :: "tensor3 \<Rightarrow> tensor3 \<Rightarrow> error + tensor3" where
  "bmm a b =
     (if list_all2 (\<lambda>A Bm. list_all (\<lambda>r. length r = length Bm) A) a b
      then Inr (map2 matmul a b) else Inl RuntimeError)"

text \<open>\<^verbatim>\<open>t.transpose(0, 1)\<close> and \<^verbatim>\<open>t.transpose(1, 2)\<close> of a three-dimensional tensor.\<close>

definition transpose01 :: "tensor3 \<Rightarrow> tensor3" where
  "transpose01 t = transpose t"

definition transpose12 :: "tensor3 \<Rightarrow> tensor3" where
  "transpose12 t = map transpose t"

text \<open>
  \<^verbatim>\<open>torch.diagonal(diff, dim1=1, dim2=2)\<close> takes from each matrix of the batch the
  entries whose row and column index agree; the result has shape \<open>[B, min n m]\<close>.
\<close>

fun diagonal :: "'a list list \<Rightarrow> 'a list" where
  "diagonal [] = []"
| "diagonal ([] # rs) = []"
| "diagonal ((x # r) # rs) = x # diagonal (map tl rs)"

text \<open>\<^verbatim>\<open>torch.norm(t, p=1)\<close> of the entries of a tensor, given as a flat list.\<close>

definition norm1 :: "real list \<Rightarrow> real" where
  "norm1 xs = sum_list (map abs xs)"

definition fdiv :: "real \<Rightarrow> real \<Rightarrow> error + real" where
  "fdiv a b = (if b = 0 then Inl NonFinite else Inr (a / b))"

text \<open>
  The two local quantities of \<^verbatim>\<open>calculate_diff\<close> (lines 61-64). \<^verbatim>\<open>len\<close> of a
  tensor is the size of its first dimension: the batch size for \<open>diag\<close>, the number of all
  entries for \<open>diff\<close> after \<^verbatim>\<open>view(-1)\<close>. The difference of the two lengths is a
  Python integer.
\<close>

definition numerator :: "tensor3 \<Rightarrow> error + real" where
  "numerator diff =
     (let diag = map diagonal diff in
      fdiv (norm1 (concat diag)) (real (length diag)))"

definition denominator :: "tensor3 \<Rightarrow> error + real" where
  "denominator diff =
     (let diag = map diagonal diff; flat = concat (concat diff) in
      fdiv (norm1 flat - norm1 (concat diag))
           (of_int (int (length flat) - int (length diag))))"

definition calculate_diff :: "tensor3 \<Rightarrow> tensor3 \<Rightarrow> error + real" where
  "calculate_diff acontext src_out_other =
     (case bmm acontext (transpose12 src_out_other) of
        Inl e \<Rightarrow> Inl e
      | Inr diff \<Rightarrow>
          (case numerator diff of
             Inl e \<Rightarrow> Inl e
           | Inr nu \<Rightarrow>
               (case denominator diff of
                  Inl e \<Rightarrow> Inl e
                | Inr de \<Rightarrow> fdiv nu de)))"

text \<open>
  The ratio as the spec words it, for comparison: the L1 norm of the diagonal over
  the number of diagonal entries, divided by the L1 norm of the other entries over their
  number.
\<close>

definition spec_ratio :: "tensor3 \<Rightarrow> error + real" where
  "spec_ratio M =
     (let diag = concat (map diagonal M); flat = concat (concat M) in
      case fdiv (norm1 diag) (real (length diag)) of
        Inl e \<Rightarrow> Inl e
      | Inr nu \<Rightarrow>
          (case fdiv (norm1 flat - norm1 diag) (of_int (int (length flat) - int (length diag))) of
             Inl e \<Rightarrow> Inl e
           | Inr de \<Rightarrow> fdiv nu de))"

text \<open>
  A scalar of the autograd graph: its value and its partial derivative with respect to
  each model parameter. \<^verbatim>\<open>d.cpu().detach().numpy()\<close> followed by
  \<^verbatim>\<open>torch.from_numpy\<close> keeps the value and cuts the graph: the new tensor is a
  constant.
\<close>

type_synonym pname = string

record tracked =
  val :: real
  grad :: "pname \<Rightarrow> real"

definition detach :: "real \<Rightarrow> tracked" where
  "detach v = \<lparr>val = v, grad = (\<lambda>p. 0)\<rparr>"



definition get_diff :: "tensor3 \<Rightarrow> tensor3 \<Rightarrow> tensor3 \<Rightarrow> tensor3 \<Rightarrow> error + (tracked \<times> tracked)" where
  "get_diff att src_out att_rev src_out_rev =
     (let src_out' = transpose01 src_out;
          src_out_rev' = transpose01 src_out_rev in
      case bmm att src_out' of
        Inl e \<Rightarrow> Inl e
      | Inr acontext \<Rightarrow>
          (case bmm att_rev src_out_rev' of
             Inl e \<Rightarrow> Inl e
           | Inr acontext_rev \<Rightarrow>
               (case calculate_diff acontext src_out_rev' of
                  Inl e \<Rightarrow> Inl e
                | Inr d \<Rightarrow>
                    (case calculate_diff acontext_rev src_out' of
                       Inl e \<Rightarrow> Inl e
                     | Inr d_rev \<Rightarrow> Inr (detach d, detach d_rev)))))"

text \<open>Multiplying every entry of a tensor by a constant.\<close>

definition scale3 :: "real \<Rightarrow> tensor3 \<Rightarrow> tensor3" where
  "scale3 c t = map (map (map ((*) c))) t"

section \<open>Batches and the reverse-direction inputs (lines 161-165 and 267-271)\<close>

text \<open>
  A batch as the collater builds it: token tensors of shape \<open>[B, S]\<close> and \<open>[B, T]\<close> as
  lists of rows, and the lengths of the \<open>B\<close> source sentences.
\<close>

record sample =
  src_tokens :: "int list list"
  src_lengths :: "int list"
  tgt_inputs :: "int list list"
  tgt_tokens :: "int list list"
  num_tokens :: int

text \<open>
  The lengths are a \<^verbatim>\<open>LongTensor\<close>: signed 64-bit integers, whose arithmetic
  wraps around. \<open>int64 x\<close> is the value of that type that the integer \<open>x\<close> wraps to.
\<close>

definition int64 :: "int \<Rightarrow> int" where
  "int64 x = (x + 2 ^ 63) mod 2 ^ 64 - 2 ^ 63"

text \<open>\<^verbatim>\<open>t.size(1)\<close> of a tensor with at least one row.\<close>

definition size1 :: "'a list list \<Rightarrow> nat" where
  "size1 t = (case t of [] \<Rightarrow> 0 | r # rs \<Rightarrow> length r)"

text \<open>
  The code that \<^verbatim>\<open>main\<close> and \<^verbatim>\<open>validate\<close> both run between the two model calls.
  \<open>src_inputs\<close> is a clone of the source tokens; line 162 writes the first \<open>S - 1\<close>
  tokens of row 0 to the positions from 1 on, line 163 writes the last token of row 0 to
  position 0, both reading the batch, not the clone. Indexing row 0 of an empty batch, or
  the last position of an empty row, raises. Lines 164-165 add \<open>T - S\<close> in place to a
  clone of the source lengths, in 64-bit arithmetic.
\<close>

definition shift_adapter :: "sample \<Rightarrow> error + (int list list \<times> int list)" where
  "shift_adapter s =
     (case src_tokens s of
        [] \<Rightarrow> Inl IndexError
      | row0 # rows \<Rightarrow>
          (let S = length row0;
               row0' = take 1 row0 @ take (S - 1) row0
           in if S = 0 then Inl IndexError
              else
                let src_inputs = (row0'[0 := row0 ! (S - 1)]) # rows;
                    tgt_lengths =
                      map (\<lambda>l. int64 (l + (int (size1 (tgt_inputs s)) - int S))) (src_lengths s)
                in Inr (src_inputs, tgt_lengths)))"

text \<open>
  The rotation as the data model of the spec words it, for comparison: the element at
  position 0 moves to the last position, all others shift left by one.
\<close>

definition backward_rotation :: "'a list \<Rightarrow> 'a list" where
  "backward_rotation row = (case row of [] \<Rightarrow> [] | x # xs \<Rightarrow> xs @ [x])"

section \<open>One training step and one validation step\<close>





section \<open>Parameters, gradients and the optimizer (lines 121 and 200-207)\<close>











section \<open>A small concrete instance\<close>

text \<open>
  Two sentence pairs of two tokens each, hidden size one. The two stand-in models ignore
  their input: each returns a number in place of the logits, identity attention and
  encoder outputs that are all one. The stand-in criterion returns that number, with
  derivative 1 with respect to the parameter \<open>w\<close> of the forward model and 2 with
  respect to the parameter \<open>w_rev\<close> of the reverse model.
\<close>

definition toy_sample :: sample where
  "toy_sample = \<lparr>src_tokens = [[11, 12], [21, 22]], src_lengths = [2, 2],
     tgt_inputs = [[2, 31], [2, 41]], tgt_tokens = [[31, 2], [41, 2]], num_tokens = 4\<rparr>"









section \<open>Properties of the training controller\<close>

lemma xle_refl: "xle a a"
  by (cases a) simp_all

lemma early_stop_update_best:
  "xle (best_validate (early_stop_update v t)) (best_validate t)"
  by (cases v; cases "best_validate t") (simp_all add: early_stop_update_def Let_def)

lemma early_stop_update_reset:
  "xless v (best_validate t) \<Longrightarrow>
     bad_epochs (early_stop_update v t) = 0 \<and> best_validate (early_stop_update v t) = v"
  by (simp add: early_stop_update_def Let_def)

lemma early_stop_update_bad:
  "0 < p \<Longrightarrow> bad_epochs t < p \<Longrightarrow> bad_epochs (early_stop_update v t) \<le> p"
  by (simp add: early_stop_update_def Let_def)

lemma epoch_loop_trace:
  "epoch_loop a validate es t0 = (st, ts) \<Longrightarrow>
     length ts \<le> length es \<and>
     (st = EARLY_STOPPED \<longrightarrow> ts \<noteq> []) \<and>
     (st = MAX_EPOCH_REACHED \<longrightarrow> length ts = length es) \<and>
     (\<forall>i<length ts.
        ts ! i = early_stop_update (validate (es ! i)) ((t0 # ts) ! i) \<and>
        (patience a \<le> bad_epochs (ts ! i)) = (st = EARLY_STOPPED \<and> Suc i = length ts))"
proof (induction es arbitrary: t0 st ts)
  case Nil
  then show ?case by simp
next
  case (Cons e es)
  let ?t = "early_stop_update (validate e) t0"
  show ?case
  proof (cases "save_interval a = 0")
    case True
    with Cons.prems show ?thesis by auto
  next
    case ival: False
    show ?thesis
    proof (cases "patience a \<le> bad_epochs ?t")
      case True
      with ival Cons.prems have "st = EARLY_STOPPED" "ts = [?t]" by simp_all
      with True show ?thesis by simp
    next
      case False
      obtain st' ts' where rec: "epoch_loop a validate es ?t = (st', ts')"
        by (cases "epoch_loop a validate es ?t")
      with False ival Cons.prems have eq: "st = st'" "ts = ?t # ts'" by simp_all
      note IH = Cons.IH [OF rec]
      have "ts ! i = early_stop_update (validate ((e # es) ! i)) ((t0 # ts) ! i) \<and>
        (patience a \<le> bad_epochs (ts ! i)) = (st = EARLY_STOPPED \<and> Suc i = length ts)"
        if "i < length ts" for i
      proof -
        note i = that
        show "ts ! i = early_stop_update (validate ((e # es) ! i)) ((t0 # ts) ! i) \<and>
          (patience a \<le> bad_epochs (ts ! i)) = (st = EARLY_STOPPED \<and> Suc i = length ts)"
        proof (cases i)
          case 0
          with False eq IH show ?thesis by auto
        next
          case (Suc j)
          with i eq have j: "j < length ts'" by simp
          from IH j have
            "ts' ! j = early_stop_update (validate (es ! j)) ((?t # ts') ! j)"
            "(patience a \<le> bad_epochs (ts' ! j)) = (st' = EARLY_STOPPED \<and> Suc j = length ts')"
            by blast+
          then show ?thesis unfolding Suc eq by simp
        qed
      qed
      then have steps: "\<forall>i<length ts.
        ts ! i = early_stop_update (validate ((e # es) ! i)) ((t0 # ts) ! i) \<and>
        (patience a \<le> bad_epochs (ts ! i)) = (st = EARLY_STOPPED \<and> Suc i = length ts)"
        by blast
      from IH eq have "length ts \<le> length (e # es)" "st = EARLY_STOPPED \<longrightarrow> ts \<noteq> []"
        "st = MAX_EPOCH_REACHED \<longrightarrow> length ts = length (e # es)"
        by simp_all
      with steps show ?thesis by blast
    qed
  qed
qed

lemma epoch_loop_halt_exact:
  "epoch_loop a validate es t0 = (EARLY_STOPPED, ts) \<Longrightarrow> 0 < patience a \<Longrightarrow>
     bad_epochs t0 < patience a \<Longrightarrow> bad_epochs (last ts) = patience a"
proof (induction es arbitrary: t0 ts)
  case Nil
  then show ?case by simp
next
  case (Cons e es)
  let ?t = "early_stop_update (validate e) t0"
  from Cons.prems(1) have ival: "save_interval a \<noteq> 0"
    by (auto split: if_splits)
  show ?case
  proof (cases "patience a \<le> bad_epochs ?t")
    case True
    with ival Cons.prems(1) have "ts = [?t]" by simp
    moreover have "bad_epochs ?t \<le> patience a"
      using Cons.prems(2,3) by (rule early_stop_update_bad)
    ultimately show ?thesis using True by simp
  next
    case False
    obtain st' ts' where rec: "epoch_loop a validate es ?t = (st', ts')"
      by (cases "epoch_loop a validate es ?t")
    with False ival Cons.prems(1) have eq: "st' = EARLY_STOPPED" "ts = ?t # ts'" by simp_all
    from rec eq have "ts' \<noteq> []"
      using epoch_loop_trace [of a validate es ?t st' ts'] by simp
    moreover have "bad_epochs (last ts') = patience a"
      using Cons.IH [of ?t ts'] rec eq False Cons.prems(2) by simp
    ultimately show ?thesis using eq by simp
  qed
qed

text \<open>
  C10. In every run of the controller, from a checkpoint or from scratch: after the epoch
  with index \<open>i\<close> of the run, if its validation perplexity was strictly below the best
  so far, \<open>bad_epochs\<close> is 0 and the best is that perplexity; \<open>best_validate\<close> is
  never above its value one epoch earlier; and \<open>bad_epochs\<close> has reached the patience
  exactly when the run stopped early and this epoch was its last. A run that stopped early
  ends with \<open>bad_epochs\<close> at least the patience, and equal to it when the patience is
  positive.
\<close>

theorem early_stopping_invariants:
  assumes run: "main a file validate = (st, ts)"
  shows "(\<forall>i<length ts.
           (xless (validate (fst (main_init (load_checkpoint file)) + 1 + int i))
                  (best_validate ((snd (main_init (load_checkpoint file)) # ts) ! i))
              \<longrightarrow> bad_epochs (ts ! i) = 0 \<and>
                  best_validate (ts ! i) = validate (fst (main_init (load_checkpoint file)) + 1 + int i)) \<and>
           xle (best_validate (ts ! i))
               (best_validate ((snd (main_init (load_checkpoint file)) # ts) ! i)) \<and>
           (patience a \<le> bad_epochs (ts ! i)) = (st = EARLY_STOPPED \<and> Suc i = length ts)) \<and>
         (st = EARLY_STOPPED \<longrightarrow> ts \<noteq> [] \<and> patience a \<le> bad_epochs (last ts)) \<and>
         (st = EARLY_STOPPED \<and> 0 < patience a \<longrightarrow> bad_epochs (last ts) = patience a)"
proof -
  let ?l = "fst (main_init (load_checkpoint file))"
  let ?t0 = "snd (main_init (load_checkpoint file))"
  let ?es = "[?l + 1 .. max_epoch a - 1]"
  from run have loop: "epoch_loop a validate ?es ?t0 = (st, ts)"
    by (simp add: main_def split: prod.splits)
  note tr = epoch_loop_trace [OF loop]
  have t0: "bad_epochs ?t0 = 0" by (simp add: main_init_def)
  have nth: "?es ! i = ?l + 1 + int i" if "i < length ts" for i
  proof -
    from that tr have "i < length ?es" by simp
    then show ?thesis by (simp add: nth_upto)
  qed
  have step: "ts ! i = early_stop_update (validate (?l + 1 + int i)) ((?t0 # ts) ! i)"
    if "i < length ts" for i
    using tr that nth [OF that] by simp
  have halt: "(patience a \<le> bad_epochs (ts ! i)) = (st = EARLY_STOPPED \<and> Suc i = length ts)"
    if "i < length ts" for i
    using tr that by blast
  have A: "\<forall>i<length ts.
           (xless (validate (?l + 1 + int i)) (best_validate ((?t0 # ts) ! i))
              \<longrightarrow> bad_epochs (ts ! i) = 0 \<and> best_validate (ts ! i) = validate (?l + 1 + int i)) \<and>
           xle (best_validate (ts ! i)) (best_validate ((?t0 # ts) ! i)) \<and>
           (patience a \<le> bad_epochs (ts ! i)) = (st = EARLY_STOPPED \<and> Suc i = length ts)"
  proof (intro allI impI)
    fix i assume i: "i < length ts"
    show "(xless (validate (?l + 1 + int i)) (best_validate ((?t0 # ts) ! i))
              \<longrightarrow> bad_epochs (ts ! i) = 0 \<and> best_validate (ts ! i) = validate (?l + 1 + int i)) \<and>
           xle (best_validate (ts ! i)) (best_validate ((?t0 # ts) ! i)) \<and>
           (patience a \<le> bad_epochs (ts ! i)) = (st = EARLY_STOPPED \<and> Suc i = length ts)"
      unfolding step [OF i] 
      using early_stop_update_reset early_stop_update_best halt [OF i, unfolded step [OF i]]
      by blast
  qed
  have B: "st = EARLY_STOPPED \<longrightarrow> ts \<noteq> [] \<and> patience a \<le> bad_epochs (last ts)"
  proof
    assume st: "st = EARLY_STOPPED"
    with tr have ne: "ts \<noteq> []" by blast
    then have "length ts - 1 < length ts" by simp
    from halt [OF this] st ne have "patience a \<le> bad_epochs (ts ! (length ts - 1))" by simp
    with ne show "ts \<noteq> [] \<and> patience a \<le> bad_epochs (last ts)"
      by (simp add: last_conv_nth)
  qed
  have C: "st = EARLY_STOPPED \<and> 0 < patience a \<longrightarrow> bad_epochs (last ts) = patience a"
    using epoch_loop_halt_exact [of a validate ?es ?t0 ts] loop t0 by auto
  from A B C show ?thesis by blast
qed

lemma upto_step: "i \<le> j \<Longrightarrow> [i..j] = i # [i + 1..j]"
  by (simp add: upto_rec1)

text \<open>
  C5, as the code has it. With the validation perplexities 5.0, 4.0, 4.2, 4.3, 4.4, 4.5 in
  the epochs 0 to 5, patience 3, no checkpoint and room for at least six epochs, the
  controller stops early after the fifth epoch: the perplexity 4.4 is the third one in a
  row that does not improve on 4.0, and the sixth epoch never runs. The best perplexity at
  the end is 4.0.
\<close>

theorem early_stop_example:
  assumes "validate 0 = Fin 5" "validate 1 = Fin 4" "validate 2 = Fin 4.2"
    "validate 3 = Fin 4.3" "validate 4 = Fin 4.4" "validate 5 = Fin 4.5"
    and "patience a = 3" "6 \<le> max_epoch a" "save_interval a \<noteq> 0"
  shows "main a None validate =
    (EARLY_STOPPED,
     [\<lparr>best_validate = Fin 5, bad_epochs = 0\<rparr>, \<lparr>best_validate = Fin 4, bad_epochs = 0\<rparr>,
      \<lparr>best_validate = Fin 4, bad_epochs = 1\<rparr>, \<lparr>best_validate = Fin 4, bad_epochs = 2\<rparr>,
      \<lparr>best_validate = Fin 4, bad_epochs = 3\<rparr>])"
proof -
  from assms(8) have "[0 .. max_epoch a - 1] = 0 # 1 # 2 # 3 # 4 # [5 .. max_epoch a - 1]"
    by (simp add: upto_step)
  with assms show ?thesis
    by (simp add: main_def main_init_def load_checkpoint_def early_stop_update_def Let_def)
qed

theorem early_stop_example_witness:
  "main \<lparr>max_epoch = 10000, clip_norm = 4, lr = 0.0003, patience = 3, save_interval = 1\<rparr> None spec_validate =
    (EARLY_STOPPED,
     [\<lparr>best_validate = Fin 5, bad_epochs = 0\<rparr>, \<lparr>best_validate = Fin 4, bad_epochs = 0\<rparr>,
      \<lparr>best_validate = Fin 4, bad_epochs = 1\<rparr>, \<lparr>best_validate = Fin 4, bad_epochs = 2\<rparr>,
      \<lparr>best_validate = Fin 4, bad_epochs = 3\<rparr>])"
  by (rule early_stop_example) (simp_all add: spec_validate_def)

text \<open>
  C5 as stated fails: on the spec's sequence the number of epochs run is not six.
\<close>

theorem early_stop_sixth_epoch_counterexample:
  "length (snd (main \<lparr>max_epoch = 8, clip_norm = 4, lr = 0.0003, patience = 3, save_interval = 1\<rparr> None spec_validate)) \<noteq> 6"
  by (simp add: main_def main_init_def load_checkpoint_def early_stop_update_def spec_validate_def Let_def
      upto_step)

text \<open>
  C2, as the code has it. After a checkpoint of epoch \<open>e\<close> with best metric \<open>m\<close> was
  saved, a restart resumes with \<open>last_epoch = e\<close>, so that the first epoch run is
  \<open>e + 1\<close>; the early-stopping tracker starts from infinity and zero bad epochs,
  whatever \<open>m\<close> is.
\<close>

theorem checkpoint_restore:
  "main_init (load_checkpoint (save_checkpoint e m)) = (e, \<lparr>best_validate = PInf, bad_epochs = 0\<rparr>) \<and>
   main a (save_checkpoint e m) validate =
     epoch_loop a validate [e + 1 .. max_epoch a - 1] \<lparr>best_validate = PInf, bad_epochs = 0\<rparr>"
  by (simp add: main_def main_init_def load_checkpoint_def save_checkpoint_def)

text \<open>
  C2 as stated fails: after restoring a checkpoint of epoch 3 with best metric 4.0, the
  initial \<open>best_validate\<close> is not 4.0, and a perplexity of 5.0 in the next epoch counts
  as an improvement.
\<close>

theorem checkpoint_best_not_restored_counterexample:
  "best_validate (snd (main_init (load_checkpoint (save_checkpoint 3 (Fin 4))))) \<noteq> Fin 4 \<and>
   main \<lparr>max_epoch = 5, clip_norm = 4, lr = 0.0003, patience = 1, save_interval = 1\<rparr> (save_checkpoint 3 (Fin 4)) (\<lambda>e. Fin 5) =
     (MAX_EPOCH_REACHED, [\<lparr>best_validate = Fin 5, bad_epochs = 0\<rparr>])"
  by (simp add: main_def main_init_def load_checkpoint_def save_checkpoint_def
      early_stop_update_def upto_step Let_def)


theorem early_stopping_invariants_witness:
  "main \<lparr>max_epoch = 5, clip_norm = 4, lr = 0.0003, patience = 2, save_interval = 1\<rparr> None (\<lambda>e. Fin 2) =
     (EARLY_STOPPED,
      [\<lparr>best_validate = Fin 2, bad_epochs = 0\<rparr>, \<lparr>best_validate = Fin 2, bad_epochs = 1\<rparr>,
       \<lparr>best_validate = Fin 2, bad_epochs = 2\<rparr>]) \<and>
   bad_epochs (last [\<lparr>best_validate = Fin 2, bad_epochs = 0\<rparr>,
       \<lparr>best_validate = Fin 2, bad_epochs = 1\<rparr>, \<lparr>best_validate = Fin 2, bad_epochs = 2\<rparr>]) = 2"
proof -
  have run: "main \<lparr>max_epoch = 5, clip_norm = 4, lr = 0.0003, patience = 2, save_interval = 1\<rparr> None (\<lambda>e. Fin 2) =
     (EARLY_STOPPED,
      [\<lparr>best_validate = Fin 2, bad_epochs = 0\<rparr>, \<lparr>best_validate = Fin 2, bad_epochs = 1\<rparr>,
       \<lparr>best_validate = Fin 2, bad_epochs = 2\<rparr>])"
    by (simp add: main_def main_init_def load_checkpoint_def early_stop_update_def upto_step Let_def)
  from early_stopping_invariants [OF run] run show ?thesis by simp
qed

section \<open>Properties of the reverse-direction inputs\<close>


lemma rotate_row:
  "row0 \<noteq> [] \<Longrightarrow> (take 1 row0 @ take (length row0 - 1) row0)[0 := row0 ! (length row0 - 1)] = last row0 # butlast row0"
  by (cases row0) (simp_all add: butlast_conv_take last_conv_nth)

lemma int64_in_range: "- (2 ^ 63) \<le> x \<Longrightarrow> x < 2 ^ 63 \<Longrightarrow> int64 x = x"
  by (simp add: int64_def)

lemma int64_wraps: "int64 (2 ^ 63 - 1 + 1) = - (2 ^ 63)"
  by (simp add: int64_def)

lemma shift_adapter_result:
  assumes "src_tokens s = row0 # rows" "row0 \<noteq> []"
  shows "shift_adapter s = Inr ((last row0 # butlast row0) # rows,
      map (\<lambda>l. int64 (l + (int (size1 (tgt_inputs s)) - int (size1 (src_tokens s))))) (src_lengths s))"
  using assms rotate_row [of row0] by (simp add: shift_adapter_def size1_def Let_def)

text \<open>
  The addition of line 165 wraps: for a batch of one sentence of one token whose length
  entry is \<open>2 ^ 63 - 1\<close> and decoder inputs of two tokens, the adjusted length is
  \<open>- 2 ^ 63\<close>.
\<close>

lemma shift_adapter_lengths_wrap:
  "shift_adapter \<lparr>src_tokens = [[5]], src_lengths = [2 ^ 63 - 1], tgt_inputs = [[2, 7]],
      tgt_tokens = [[7, 2]], num_tokens = 1\<rparr> = Inr ([[5]], [- (2 ^ 63)])"
  by (simp add: shift_adapter_def size1_def Let_def int64_def)

text \<open>
  C6. For a batch with at least one row and at least one token per row, the adapter
  returns a copy of the source tokens in which row 0 is shifted cyclically to the right by
  one: its last token is at position 0 and the token of every other position \<open>j\<close> is
  the one that was at \<open>j - 1\<close>. The new row 0 is a permutation of the old one and the
  other rows are unchanged. When no sum \<open>l + (T - S)\<close> of a source length leaves the
  range of 64-bit integers, as for the lengths of the sentences of a batch, which lie
  between 0 and \<open>S\<close>, the adjusted lengths are the source lengths plus \<open>T - S\<close>.
\<close>

theorem shift_adapter_rotates_right:
  assumes "src_tokens s = row0 # rows" "row0 \<noteq> []"
    and "\<forall>l \<in> set (src_lengths s).
           - (2 ^ 63) \<le> l + (int (size1 (tgt_inputs s)) - int (size1 (src_tokens s))) \<and>
           l + (int (size1 (tgt_inputs s)) - int (size1 (src_tokens s))) < 2 ^ 63"
  shows "\<exists>src_inputs tgt_lengths.
     shift_adapter s = Inr (src_inputs, tgt_lengths) \<and>
     length src_inputs = length (src_tokens s) \<and>
     src_inputs ! 0 = last row0 # butlast row0 \<and>
     length (src_inputs ! 0) = length row0 \<and>
     src_inputs ! 0 ! 0 = row0 ! (length row0 - 1) \<and>
     (\<forall>j. 0 < j \<and> j < length row0 \<longrightarrow> src_inputs ! 0 ! j = row0 ! (j - 1)) \<and>
     mset (src_inputs ! 0) = mset row0 \<and>
     drop 1 src_inputs = rows \<and>
     tgt_lengths = map (\<lambda>l. l + (int (size1 (tgt_inputs s)) - int (size1 (src_tokens s)))) (src_lengths s)"
proof -
  let ?r = "last row0 # butlast row0"
  let ?k = "int (size1 (tgt_inputs s)) - int (size1 (src_tokens s))"
  have "map (\<lambda>l. int64 (l + ?k)) (src_lengths s) = map (\<lambda>l. l + ?k) (src_lengths s)"
    using assms(3) by (intro map_cong refl int64_in_range) blast+
  with shift_adapter_result [OF assms(1,2)]
  have sa: "shift_adapter s = Inr (?r # rows, map (\<lambda>l. l + ?k) (src_lengths s))"
    by simp
  have idx: "?r ! j = row0 ! (j - 1)" if "0 < j" "j < length row0" for j
    using that by (cases j) (simp_all add: nth_butlast)
  have ms: "mset ?r = mset row0"
    using assms(2) by (metis append_butlast_last_id mset.simps(2) mset_append union_mset_add_mset_right add.right_neutral mset.simps(1))
  from sa idx ms assms(1,2) show ?thesis
    by (simp add: last_conv_nth)
qed

text \<open>
  The hypothesis on the lengths holds for every batch whose length entries lie between 0
  and the number \<open>S\<close> of columns, when \<open>S\<close> and \<open>T\<close> are sizes of tensors and so
  below \<open>2 ^ 63\<close>.
\<close>

lemma sentence_lengths_in_range:
  assumes "0 \<le> l" "l \<le> int S" "int S < 2 ^ 63" "int T < 2 ^ 63"
  shows "- (2 ^ 63) \<le> l + (int T - int S) \<and> l + (int T - int S) < 2 ^ 63"
  using assms by simp

lemma toy_sample_fields:
  "src_tokens toy_sample = [[11, 12], [21, 22]]" "src_lengths toy_sample = [2, 2]"
  "tgt_inputs toy_sample = [[2, 31], [2, 41]]" "tgt_tokens toy_sample = [[31, 2], [41, 2]]"
  by (simp_all add: toy_sample_def)

theorem shift_adapter_rotates_right_witness:
  "\<exists>src_inputs tgt_lengths.
     shift_adapter toy_sample = Inr (src_inputs, tgt_lengths) \<and>
     src_inputs ! 0 = [12, 11] \<and> mset (src_inputs ! 0) = mset [11, 12] \<and>
     drop 1 src_inputs = [[21, 22]] \<and> tgt_lengths = [2, 2]"
  using shift_adapter_rotates_right [of toy_sample "[11, 12]" "[[21, 22]]"]
  by (simp add: toy_sample_fields size1_def) blast

text \<open>
  C7, as the code has it. Row 0 of \<open>src_inputs\<close> is the forward rotation of row 0 of
  the source tokens: the last token first, then the others in order, so that rotating it
  backward by one gives the original row. The other rows are copied unchanged.
\<close>

theorem src_inputs_forward_rotation:
  assumes "src_tokens s = row0 # rows" "row0 \<noteq> []"
  shows "\<exists>tgt_lengths.
     shift_adapter s = Inr ((last row0 # butlast row0) # rows, tgt_lengths) \<and>
     backward_rotation (last row0 # butlast row0) = row0"
  using shift_adapter_result [OF assms] assms(2)
  by (simp add: backward_rotation_def)

theorem src_inputs_forward_rotation_witness:
  "\<exists>tgt_lengths.
     shift_adapter toy_sample = Inr ([[12, 11], [21, 22]], tgt_lengths) \<and>
     backward_rotation [12, 11] = [11, 12 :: int]"
  using src_inputs_forward_rotation [of toy_sample "[11, 12]" "[[21, 22]]"]
  by (simp add: toy_sample_fields)

text \<open>
  C7 as stated fails: for the row 1, 2, 3 the code produces 3, 1, 2, and the backward
  rotation of the row is 2, 3, 1.
\<close>

theorem backward_rotation_counterexample:
  "shift_adapter \<lparr>src_tokens = [[1, 2, 3], [4, 5, 6]], src_lengths = [3, 3],
      tgt_inputs = [[2, 7, 8, 9], [2, 7, 8, 9]], tgt_tokens = [[7, 8, 9, 2], [7, 8, 9, 2]],
      num_tokens = 8\<rparr> = Inr ([[3, 1, 2], [4, 5, 6]], [4, 4]) \<and>
   backward_rotation [1, 2, 3 :: int] = [2, 3, 1] \<and>
   [3, 1, 2] \<noteq> backward_rotation [1, 2, 3 :: int]"
  by (simp add: shift_adapter_def Let_def size1_def backward_rotation_def int64_def)

section \<open>Properties of the alignment regulariser\<close>

lemma dot_scale: "dot (map ((*) c) u) v = c * dot u v"
  unfolding dot_def
proof (induction u arbitrary: v)
  case Nil
  then show ?case by simp
next
  case (Cons x u)
  then show ?case by (cases v) (simp_all add: algebra_simps)
qed

lemma matmul_scale: "matmul (map (map ((*) c)) A) Bm = map (map ((*) c)) (matmul A Bm)"
  by (simp add: matmul_def dot_scale comp_def)

lemma map2_matmul_scale:
  "map2 matmul (scale3 c a) b = scale3 c (map2 matmul a b)"
proof (induction a arbitrary: b)
  case Nil
  then show ?case by (simp add: scale3_def)
next
  case (Cons A a)
  then show ?case by (cases b) (simp_all add: scale3_def matmul_scale)
qed

lemma bmm_shape_scale:
  "list_all2 (\<lambda>A Bm. list_all (\<lambda>r. length r = length Bm) A) (scale3 c a) b =
   list_all2 (\<lambda>A Bm. list_all (\<lambda>r. length r = length Bm) A) a b"
  by (simp add: scale3_def list_all2_map1 list_all_iff)

lemma bmm_scale:
  "bmm (scale3 c a) b = (case bmm a b of Inl e \<Rightarrow> Inl e | Inr t \<Rightarrow> Inr (scale3 c t))"
  by (simp add: bmm_def bmm_shape_scale map2_matmul_scale)

lemma diagonal_map: "diagonal (map (map f) M) = map f (diagonal M)"
proof (induction M rule: diagonal.induct)
  case (3 x r rs)
  have "map tl (map (map f) rs) = map (map f) (map tl rs)"
    by (induction rs) (simp_all add: map_tl)
  with 3 show ?case by (simp del: map_map)
qed simp_all

lemma norm1_scale: "0 \<le> c \<Longrightarrow> norm1 (map ((*) c) xs) = c * norm1 xs"
  by (induction xs) (simp_all add: norm1_def abs_mult algebra_simps)

lemma norm1_nonneg: "0 \<le> norm1 xs"
  by (induction xs) (simp_all add: norm1_def)

lemma diag_scale3:
  "concat (map diagonal (scale3 c t)) = map ((*) c) (concat (map diagonal t))"
  by (simp add: scale3_def comp_def diagonal_map map_concat)

lemma flat_scale3:
  "concat (concat (scale3 c t)) = map ((*) c) (concat (concat t))"
  by (simp add: scale3_def map_concat comp_def)

lemma numerator_scale:
  "0 \<le> c \<Longrightarrow> numerator (scale3 c t) = (case numerator t of Inl e \<Rightarrow> Inl e | Inr x \<Rightarrow> Inr (c * x))"
  using diag_scale3 [of c t]
  by (simp add: numerator_def fdiv_def norm1_scale Let_def) (simp add: scale3_def)

lemma denominator_scale:
  "0 \<le> c \<Longrightarrow> denominator (scale3 c t) = (case denominator t of Inl e \<Rightarrow> Inl e | Inr x \<Rightarrow> Inr (c * x))"
  using diag_scale3 [of c t] flat_scale3 [of c t]
  by (simp add: denominator_def fdiv_def norm1_scale Let_def algebra_simps) (simp add: scale3_def)

lemma calculate_diff_scale:
  "0 < c \<Longrightarrow> calculate_diff (scale3 c a) b = calculate_diff a b"
  by (simp add: calculate_diff_def bmm_scale numerator_scale denominator_scale fdiv_def
      split: sum.splits)

lemma get_diff_scale:
  "0 < c \<Longrightarrow> get_diff (scale3 c att) src_out (scale3 c att_rev) src_out_rev =
     get_diff att src_out att_rev src_out_rev"
  by (simp add: get_diff_def bmm_scale calculate_diff_scale Let_def split: sum.splits)


lemma numerator_defined:
  assumes "denominator diff = Inr de"
  shows "\<exists>nu. numerator diff = Inr nu \<and> 0 \<le> nu"
proof -
  from assms have "diff \<noteq> []"
    by (auto simp: denominator_def fdiv_def Let_def)
  then show ?thesis
    by (simp add: numerator_def fdiv_def Let_def norm1_nonneg)
qed

lemma calculate_diff_nonneg:
  assumes "bmm acontext (transpose12 other) = Inr diff" "denominator diff = Inr de" "0 < de"
  shows "\<exists>d. calculate_diff acontext other = Inr d \<and> 0 \<le> d"
proof -
  from numerator_defined [OF assms(2)] obtain nu where "numerator diff = Inr nu" "0 \<le> nu"
    by blast
  with assms show ?thesis
    by (simp add: calculate_diff_def fdiv_def)
qed

text \<open>
  The regulariser in exact arithmetic. The definitions above compute with real numbers.
  There, when the four batched products are defined and the denominators of both pairwise
  product matrices are positive, \<^verbatim>\<open>get_diff\<close> returns a pair of non-negative values
  and returns the same pair when both attention tensors are multiplied by the same positive
  constant. The program computes in 32-bit floats, where every operation rounds and the
  norms of large entries overflow, so the second statement is a fact about the exact
  ratio only and not about the values the program returns.
\<close>

lemma get_diff_exact_arithmetic:
  assumes "bmm att (transpose01 src_out) = Inr acontext"
    and "bmm att_rev (transpose01 src_out_rev) = Inr acontext_rev"
    and "bmm acontext (transpose12 (transpose01 src_out_rev)) = Inr diff"
    and "bmm acontext_rev (transpose12 (transpose01 src_out)) = Inr diff_rev"
    and "denominator diff = Inr de" "0 < de"
    and "denominator diff_rev = Inr de_rev" "0 < de_rev"
    and "0 < c"
  shows "\<exists>d d_rev. get_diff att src_out att_rev src_out_rev = Inr (d, d_rev) \<and>
           0 \<le> val d \<and> 0 \<le> val d_rev \<and>
           get_diff (scale3 c att) src_out (scale3 c att_rev) src_out_rev = Inr (d, d_rev)"
proof -
  from calculate_diff_nonneg [OF assms(3,5,6)] obtain x where
    x: "calculate_diff acontext (transpose01 src_out_rev) = Inr x" "0 \<le> x" by blast
  from calculate_diff_nonneg [OF assms(4,7,8)] obtain y where
    y: "calculate_diff acontext_rev (transpose01 src_out) = Inr y" "0 \<le> y" by blast
  from assms(1,2) x y have "get_diff att src_out att_rev src_out_rev = Inr (detach x, detach y)"
    by (simp add: get_diff_def Let_def)
  moreover from x y have "0 \<le> val (detach x)" "0 \<le> val (detach y)"
    by (simp_all add: detach_def)
  ultimately show ?thesis
    using get_diff_scale [OF assms(9), of att src_out att_rev src_out_rev] by simp
qed





text \<open>
  C1 at a batch of one 2 by 2 matrix whose entries are all one. The diagonal has two
  entries, but \<^verbatim>\<open>len(diag)\<close> is the batch size 1: the code computes
  \<open>(2 / 1) / ((4 - 2) / (4 - 1)) = 3\<close>, while the ratio of the mean diagonal magnitude to
  the mean off-diagonal magnitude is \<open>(2 / 2) / ((4 - 2) / (4 - 2)) = 1\<close>.
\<close>

theorem calculate_diff_divides_by_batch_size:
  "bmm [[[1, 0], [0, 1]]] (transpose12 [[[1, 1], [1, 1]]]) = Inr [[[1, 1], [1, 1]]] \<and>
   calculate_diff [[[1, 0], [0, 1]]] [[[1, 1], [1, 1]]] = Inr 3 \<and>
   spec_ratio [[[1, 1], [1, 1]]] = Inr 1"
  by (simp add: calculate_diff_def bmm_def transpose12_def matmul_def dot_def numerator_def
      denominator_def spec_ratio_def norm1_def fdiv_def)

section \<open>Properties of the batch losses\<close>












section \<open>Properties of the optimizer step\<close>
















end
